theory Spec2Isabelle
  imports Main "HOL-Library.Multiset"
begin

section \<open>Python values and the operations the fetcher applies to them\<close>

text \<open>
  Both programs (\<^verbatim>\<open>leetcode_fetcher.py\<close>, the command-line tool, and \<^verbatim>\<open>app.py\<close>, the
  Streamlit page) work on what \<^verbatim>\<open>response.json()\<close> returns: \<^verbatim>\<open>None\<close>, booleans,
  integers, strings, lists and dictionaries with string keys. A dictionary is an
  association list, in insertion order; \<open>map_of\<close> looks a key up. JSON numbers with a
  fraction or an exponent (Python floats) are not represented: a body that holds one is
  outside this development. Strings are lists of characters with codes 0 to 255.
\<close>

datatype pyval =
    PNone
  | PBool bool
  | PInt int
  | PStr string
  | PList "pyval list"
  | PDict "(string \<times> pyval) list"

text \<open>
  The exceptions that can occur. \<open>ValueError\<close> carries its text, since the source
  formats it into messages; \<open>KeyError\<close> carries the missing key. \<open>NotModelled\<close> is
  not a Python exception: it marks the inputs of the pandas calls of \<^verbatim>\<open>app.py\<close> whose
  outcome this development does not represent.
\<close>

datatype exn =
    ValueError string
  | KeyError string
  | TypeError
  | AttributeError
  | FileNotFoundError
  | PermissionError
  | IsADirectoryError
  | UnicodeDecodeError
  | NotModelled

type_synonym 'a result = "exn + 'a"

definition try_bind :: "'a result \<Rightarrow> ('a \<Rightarrow> 'b result) \<Rightarrow> 'b result" where
  "try_bind m f = (case m of Inl e \<Rightarrow> Inl e | Inr v \<Rightarrow> f v)"

text \<open>Truth value of an object, as \<^verbatim>\<open>not x\<close>, \<^verbatim>\<open>x or y\<close> and \<^verbatim>\<open>if x\<close> test it.\<close>

fun truthy :: "pyval \<Rightarrow> bool" where
  "truthy PNone = False"
| "truthy (PBool b) = b"
| "truthy (PInt n) = (n \<noteq> 0)"
| "truthy (PStr s) = (s \<noteq> [])"
| "truthy (PList xs) = (xs \<noteq> [])"
| "truthy (PDict kvs) = (kvs \<noteq> [])"

text \<open>\<^verbatim>\<open>needle in hay\<close> on two strings: substring test.\<close>

fun contains_str :: "string \<Rightarrow> string \<Rightarrow> bool" where
  "contains_str needle [] = (needle = [])"
| "contains_str needle (c # cs) =
     (take (length needle) (c # cs) = needle \<or> contains_str needle cs)"

text \<open>
  \<^verbatim>\<open>key in x\<close> for a string \<open>key\<close>: key membership on a dictionary, element
  membership on a list, substring on a string, \<^verbatim>\<open>TypeError\<close> on the rest.
\<close>

fun py_contains :: "string \<Rightarrow> pyval \<Rightarrow> bool result" where
  "py_contains key (PDict kvs) = Inr (key \<in> set (map fst kvs))"
| "py_contains key (PList xs) = Inr (PStr key \<in> set xs)"
| "py_contains key (PStr s) = Inr (contains_str key s)"
| "py_contains key PNone = Inl TypeError"
| "py_contains key (PBool b) = Inl TypeError"
| "py_contains key (PInt n) = Inl TypeError"

text \<open>
  \<^verbatim>\<open>x[key]\<close> for a string \<open>key\<close>: lookup on a dictionary (\<^verbatim>\<open>KeyError\<close> when the key
  is missing), \<^verbatim>\<open>TypeError\<close> on every other value.
\<close>

fun subscript :: "pyval \<Rightarrow> string \<Rightarrow> pyval result" where
  "subscript (PDict kvs) key =
     (case map_of kvs key of None \<Rightarrow> Inl (KeyError key) | Some v \<Rightarrow> Inr v)"
| "subscript PNone key = Inl TypeError"
| "subscript (PBool b) key = Inl TypeError"
| "subscript (PInt n) key = Inl TypeError"
| "subscript (PStr s) key = Inl TypeError"
| "subscript (PList xs) key = Inl TypeError"

text \<open>\<^verbatim>\<open>x.get(key, default)\<close>: only dictionaries have the method.\<close>

fun py_get :: "pyval \<Rightarrow> string \<Rightarrow> pyval \<Rightarrow> pyval result" where
  "py_get (PDict kvs) key dflt =
     (case map_of kvs key of None \<Rightarrow> Inr dflt | Some v \<Rightarrow> Inr v)"
| "py_get PNone key dflt = Inl AttributeError"
| "py_get (PBool b) key dflt = Inl AttributeError"
| "py_get (PInt n) key dflt = Inl AttributeError"
| "py_get (PStr s) key dflt = Inl AttributeError"
| "py_get (PList xs) key dflt = Inl AttributeError"

text \<open>
  Iteration (\<^verbatim>\<open>for item in x\<close>): the elements of a list, the keys of a dictionary,
  the one-character strings of a string; \<^verbatim>\<open>TypeError\<close> on the rest.
\<close>

fun py_iter :: "pyval \<Rightarrow> pyval list result" where
  "py_iter (PList xs) = Inr xs"
| "py_iter (PDict kvs) = Inr (map (\<lambda>kv. PStr (fst kv)) kvs)"
| "py_iter (PStr s) = Inr (map (\<lambda>c. PStr [c]) s)"
| "py_iter PNone = Inl TypeError"
| "py_iter (PBool b) = Inl TypeError"
| "py_iter (PInt n) = Inl TypeError"

text \<open>\<^verbatim>\<open>acc + x\<close> with an integer on the left, as \<^verbatim>\<open>sum\<close> computes it.\<close>

fun int_add :: "int \<Rightarrow> pyval \<Rightarrow> int result" where
  "int_add acc (PInt n) = Inr (acc + n)"
| "int_add acc (PBool b) = Inr (acc + (if b then 1 else 0))"
| "int_add acc PNone = Inl TypeError"
| "int_add acc (PStr s) = Inl TypeError"
| "int_add acc (PList xs) = Inl TypeError"
| "int_add acc (PDict kvs) = Inl TypeError"

text \<open>
  \<^verbatim>\<open>sum(item["count"] for item in submissions)\<close>, after the iterator has been made:
  the generator is consumed item by item, so the first failing subscript or addition
  ends the sum.
\<close>

fun sum_counts :: "int \<Rightarrow> pyval list \<Rightarrow> int result" where
  "sum_counts acc [] = Inr acc"
| "sum_counts acc (item # items) =
     try_bind (subscript item ''count'') (\<lambda>c.
     try_bind (int_add acc c) (\<lambda>acc'. sum_counts acc' items))"

text \<open>\<^verbatim>\<open>[badge["displayName"] for badge in badges]\<close>, after the iterator has been made.\<close>

fun display_names :: "pyval list \<Rightarrow> pyval list result" where
  "display_names [] = Inr []"
| "display_names (badge # badges) =
     try_bind (subscript badge ''displayName'') (\<lambda>n.
     try_bind (display_names badges) (\<lambda>ns. Inr (n # ns)))"

text \<open>\<^verbatim>\<open>str(n)\<close> for an integer, used by the f-string of the status code.\<close>

fun str_nat :: "nat \<Rightarrow> string" where
  "str_nat n =
     (if n < 10 then [char_of (48 + n)]
      else str_nat (n div 10) @ [char_of (48 + n mod 10)])"

definition str_int :: "int \<Rightarrow> string" where
  "str_int i = (if i < 0 then CHR ''-'' # str_nat (nat (- i)) else str_nat (nat i))"

text \<open>\<^verbatim>\<open>", ".join(xs)\<close>: every element must be a string.\<close>

fun join_comma :: "pyval list \<Rightarrow> string result" where
  "join_comma [] = Inr []"
| "join_comma [PStr s] = Inr s"
| "join_comma (PStr s # x # xs) =
     try_bind (join_comma (x # xs)) (\<lambda>r. Inr (s @ '', '' @ r))"
| "join_comma (_ # xs) = Inl TypeError"

section \<open>The remote endpoint\<close>

text \<open>
  A response has a status code and a body; \<^verbatim>\<open>response.json()\<close> either raises a
  \<^verbatim>\<open>ValueError\<close> with some text (\<open>Inl\<close>) or returns the parsed value (\<open>Inr\<close>).
  The network is a state: \<open>remote k u\<close> is the answer to a request for user \<open>u\<close>
  sent after \<open>k\<close> earlier requests, and \<open>sent\<close> logs the users requested so far. The
  request's URL, query and headers are fixed by the source apart from the user name.
  A connection that fails before any response exists is not represented.
\<close>

record response =
  status_code :: int
  body :: "string + pyval"

record net =
  remote :: "nat \<Rightarrow> string \<Rightarrow> response"
  sent :: "string list"

definition requests_post :: "net \<Rightarrow> string \<Rightarrow> response \<times> net" where
  "requests_post nw username =
     (remote nw (length (sent nw)) username, nw\<lparr>sent := sent nw @ [username]\<rparr>)"

definition json :: "response \<Rightarrow> pyval result" where
  "json r = (case body r of Inl msg \<Rightarrow> Inl (ValueError msg) | Inr v \<Rightarrow> Inr v)"

section \<open>Profile fetcher\<close>

text \<open>The two record shapes the source builds as dictionary literals.\<close>

definition error_record :: "string \<Rightarrow> pyval \<Rightarrow> pyval" where
  "error_record username detail =
     PDict [(''username'', PStr username), (''error'', detail)]"

definition success_record :: "string \<Rightarrow> pyval \<Rightarrow> pyval \<Rightarrow> pyval \<Rightarrow> pyval" where
  "success_record username ranking solved badges =
     PDict [(''username'', PStr username), (''ranking'', ranking),
            (''problems_solved'', solved), (''badges'', badges)]"

text \<open>
  \<^verbatim>\<open>except ValueError as e\<close> around the body of \<^verbatim>\<open>fetch_user_data\<close>: a
  \<^verbatim>\<open>ValueError\<close> becomes an error record, any other exception passes through.
\<close>

fun except_ValueError :: "string \<Rightarrow> pyval result \<Rightarrow> pyval result" where
  "except_ValueError username (Inl (ValueError msg)) =
     Inr (error_record username (PStr (''Invalid API response: '' @ msg)))"
| "except_ValueError username r = r"

text \<open>
  The statements of \<^verbatim>\<open>fetch_user_data\<close> inside \<^verbatim>\<open>try\<close>, in the order Python
  evaluates them, for \<^verbatim>\<open>leetcode_fetcher.py\<close>. \<open>badges_field\<close> is the expression stored
  under \<^verbatim>\<open>"badges"\<close>, the one place where the two files differ.
\<close>

definition cli_badges_field :: "pyval \<Rightarrow> pyval result" where
  "cli_badges_field badges =
     try_bind (py_iter badges) (\<lambda>bs.
     try_bind (display_names bs) (\<lambda>ns. Inr (PList ns)))"

definition app_badges_field :: "pyval \<Rightarrow> pyval result" where
  "app_badges_field badges =
     (if truthy badges then
        try_bind (py_iter badges) (\<lambda>bs.
        try_bind (display_names bs) (\<lambda>ns.
        try_bind (join_comma ns) (\<lambda>s. Inr (PStr s))))
      else Inr (PStr ''None''))"

definition normalize :: "(pyval \<Rightarrow> pyval result) \<Rightarrow> string \<Rightarrow> response \<Rightarrow> pyval result" where
  "normalize badges_field username r =
     try_bind (json r) (\<lambda>data.
     try_bind (py_contains ''errors'' data) (\<lambda>has_errors.
     (if has_errors then
        try_bind (subscript data ''errors'') (\<lambda>errs. Inr (error_record username errs))
      else
        try_bind (subscript data ''data'') (\<lambda>d.
        try_bind (subscript d ''matchedUser'') (\<lambda>user_data.
        (if \<not> truthy user_data then
           Inr (error_record username (PStr ''User not found.''))
         else
           try_bind (subscript user_data ''profile'') (\<lambda>profile.
           try_bind (subscript user_data ''submitStats'') (\<lambda>stats.
           try_bind (subscript stats ''acSubmissionNum'') (\<lambda>submissions.
           try_bind (py_get user_data ''badges'' (PList [])) (\<lambda>badges.
           try_bind (subscript profile ''ranking'') (\<lambda>ranking.
           try_bind (py_iter submissions) (\<lambda>items.
           try_bind (sum_counts 0 items) (\<lambda>summed.
           try_bind (badges_field badges) (\<lambda>bf.
           Inr (success_record username ranking (PInt (summed div 2)) bf)))))))))))))))"

definition fetch_with :: "(pyval \<Rightarrow> pyval result) \<Rightarrow> net \<Rightarrow> string \<Rightarrow> pyval result \<times> net" where
  "fetch_with badges_field nw username =
     (let (r, nw') = requests_post nw username in
      if status_code r \<noteq> 200 then
        (Inr (error_record username (PStr (''API error: '' @ str_int (status_code r)))), nw')
      else (except_ValueError username (normalize badges_field username r), nw'))"

text \<open>\<^verbatim>\<open>fetch_user_data\<close> of \<^verbatim>\<open>leetcode_fetcher.py\<close>.\<close>

definition fetch_user_data :: "net \<Rightarrow> string \<Rightarrow> pyval result \<times> net" where
  "fetch_user_data = fetch_with cli_badges_field"

text \<open>\<^verbatim>\<open>fetch_user_data\<close> of \<^verbatim>\<open>app.py\<close>.\<close>

definition app_fetch_user_data :: "net \<Rightarrow> string \<Rightarrow> pyval result \<times> net" where
  "app_fetch_user_data = fetch_with app_badges_field"

section \<open>Batch orchestrator\<close>

text \<open>
  \<^verbatim>\<open>fetch_all_users\<close>: the \<^verbatim>\<open>for\<close> loop appends one record per user name; an
  exception raised by a fetch leaves the loop and the function. Both files hold the same
  loop, each over its own \<^verbatim>\<open>fetch_user_data\<close>.
\<close>

fun fetch_loop ::
  "(net \<Rightarrow> string \<Rightarrow> pyval result \<times> net) \<Rightarrow> net \<Rightarrow> string list \<Rightarrow> pyval list
     \<Rightarrow> pyval list result \<times> net" where
  "fetch_loop fetch nw [] results = (Inr results, nw)"
| "fetch_loop fetch nw (username # usernames) results =
     (case fetch nw username of
        (Inl e, nw') \<Rightarrow> (Inl e, nw')
      | (Inr user_data, nw') \<Rightarrow> fetch_loop fetch nw' usernames (results @ [user_data]))"

definition fetch_all_users :: "net \<Rightarrow> string list \<Rightarrow> pyval list result \<times> net" where
  "fetch_all_users nw usernames = fetch_loop fetch_user_data nw usernames []"

definition app_fetch_all_users :: "net \<Rightarrow> string list \<Rightarrow> pyval list result \<times> net" where
  "app_fetch_all_users nw usernames = fetch_loop app_fetch_user_data nw usernames []"

section \<open>Plain-text presenter (\<^verbatim>\<open>leetcode_fetcher.py\<close>)\<close>

text \<open>
  A \<^verbatim>\<open>PrettyTable\<close> is its field names and its rows, in the order \<^verbatim>\<open>add_row\<close>
  received them; the cells are the Python values of the row list.
\<close>

record pretty_table =
  field_names :: "string list"
  rows :: "pyval list list"

text \<open>\<^verbatim>\<open>", ".join(x)\<close> on any value: the value is iterated first.\<close>

definition py_join :: "pyval \<Rightarrow> pyval result" where
  "py_join x =
     try_bind (py_iter x) (\<lambda>xs.
     try_bind (join_comma xs) (\<lambda>s. Inr (PStr s)))"

text \<open>The row that one pass of the loop of \<^verbatim>\<open>display_data\<close> adds.\<close>

definition table_row :: "pyval \<Rightarrow> pyval list result" where
  "table_row user =
     try_bind (py_contains ''error'' user) (\<lambda>is_error.
     (if is_error then
        try_bind (subscript user ''username'') (\<lambda>name.
        Inr [name, PStr ''Error'', PStr ''-'', PStr ''-''])
      else
        try_bind (subscript user ''username'') (\<lambda>name.
        try_bind (subscript user ''ranking'') (\<lambda>ranking.
        try_bind (subscript user ''problems_solved'') (\<lambda>solved.
        try_bind (subscript user ''badges'') (\<lambda>badges.
        try_bind (if truthy badges then py_join badges else Inr (PStr ''None'')) (\<lambda>shown.
        Inr [name, if truthy ranking then ranking else PStr ''N/A'', solved, shown])))))))"

fun add_rows :: "pretty_table \<Rightarrow> pyval list \<Rightarrow> pretty_table result" where
  "add_rows table [] = Inr table"
| "add_rows table (user # data) =
     try_bind (table_row user) (\<lambda>row.
     add_rows (table\<lparr>rows := rows table @ [row]\<rparr>) data)"

definition display_data :: "pyval list \<Rightarrow> pretty_table result" where
  "display_data data =
     add_rows \<lparr>field_names = [''Username'', ''Ranking'', ''Problems Solved'', ''Badges''],
               rows = []\<rparr> data"

section \<open>Identifier source\<close>

text \<open>
  \<^verbatim>\<open>str.strip()\<close> removes white space at both ends. Among the characters with codes
  0 to 255 Python counts as white space: tab, line feed, vertical tab, form feed,
  carriage return, the separators 28 to 31, the space, 133 and 160.
\<close>

definition is_space :: "char \<Rightarrow> bool" where
  "is_space c =
     (let n = (of_char c :: nat) in (9 \<le> n \<and> n \<le> 13) \<or> (28 \<le> n \<and> n \<le> 32) \<or> n = 133 \<or> n = 160)"

definition strip :: "string \<Rightarrow> string" where
  "strip s = rev (dropWhile is_space (rev (dropWhile is_space s)))"

text \<open>\<^verbatim>\<open>s.split(",")\<close>; \<open>cur\<close> is the token read so far.\<close>

fun split_on :: "char \<Rightarrow> string \<Rightarrow> string \<Rightarrow> string list" where
  "split_on sep cur [] = [cur]"
| "split_on sep cur (c # cs) =
     (if c = sep then cur # split_on sep [] cs else split_on sep (cur @ [c]) cs)"

definition split_comma :: "string \<Rightarrow> string list" where
  "split_comma s = split_on CHR '','' [] s"

text \<open>
  \<^verbatim>\<open>file.readlines()\<close> on a file opened in text mode: a line ends at a line feed, at a
  carriage return or at the pair of them, each read as one line feed, which stays at the
  end of the line; a last line without line end is kept as it is.
\<close>

fun readlines :: "string \<Rightarrow> string \<Rightarrow> string list" where
  "readlines cur [] = (if cur = [] then [] else [cur])"
| "readlines cur [c] =
     (if c = CHR 0x0D \<or> c = CHR 0x0A then [cur @ [CHR 0x0A]] else [cur @ [c]])"
| "readlines cur (c # d # cs) =
     (if c = CHR 0x0D \<and> d = CHR 0x0A then (cur @ [CHR 0x0A]) # readlines [] cs
      else if c = CHR 0x0D \<or> c = CHR 0x0A then (cur @ [CHR 0x0A]) # readlines [] (d # cs)
      else readlines (cur @ [c]) (d # cs))"

text \<open>
  \<^verbatim>\<open>content.splitlines()\<close>: the line boundaries with codes 0 to 255 are line feed,
  carriage return (alone or followed by a line feed), vertical tab, form feed, the
  separators 28 to 30 and 133; the boundary is dropped, and no empty last line is added.
\<close>

definition is_linebreak :: "char \<Rightarrow> bool" where
  "is_linebreak c =
     (let n = (of_char c :: nat) in (10 \<le> n \<and> n \<le> 13) \<or> (28 \<le> n \<and> n \<le> 30) \<or> n = 133)"

fun splitlines :: "string \<Rightarrow> string \<Rightarrow> string list" where
  "splitlines cur [] = (if cur = [] then [] else [cur])"
| "splitlines cur [c] = (if is_linebreak c then [cur] else [cur @ [c]])"
| "splitlines cur (c # d # cs) =
     (if c = CHR 0x0D \<and> d = CHR 0x0A then cur # splitlines [] cs
      else if is_linebreak c then cur # splitlines [] (d # cs)
      else splitlines (cur @ [c]) (d # cs))"

text \<open>
  The parsed command line: \<^verbatim>\<open>args.file\<close> and \<^verbatim>\<open>args.usernames\<close> are \<^verbatim>\<open>None\<close> or a
  string (the fields \<open>arg_file\<close> and \<open>arg_usernames\<close>). The file system maps a path to the exception that opening or reading the file
  raises, or to the text of the file.
\<close>

record args =
  arg_file :: "string option"
  arg_usernames :: "string option"

type_synonym filesystem = "string \<Rightarrow> string result"

text \<open>\<^verbatim>\<open>if args.file\<close>: \<^verbatim>\<open>None\<close> and the empty string are false.\<close>

fun given :: "string option \<Rightarrow> bool" where
  "given None = False"
| "given (Some s) = (s \<noteq> [])"

text \<open>
  \<^verbatim>\<open>get_usernames\<close> of \<^verbatim>\<open>leetcode_fetcher.py\<close>: \<open>read_file\<close> is the \<^verbatim>\<open>try\<close> block that
  opens and reads the file, \<open>read_usernames\<close> the choice between the two sources, and
  \<open>get_usernames\<close> adds the size check.
\<close>

definition read_file :: "filesystem \<Rightarrow> string \<Rightarrow> string list result" where
  "read_file fs path =
     (case fs path of
        Inl FileNotFoundError \<Rightarrow> Inl (ValueError (''File not found: '' @ path))
      | Inl e \<Rightarrow> Inl e
      | Inr content \<Rightarrow> Inr (map strip (readlines [] content)))"

definition read_usernames :: "filesystem \<Rightarrow> args \<Rightarrow> string list result" where
  "read_usernames fs a =
     (if given (arg_file a) then read_file fs (the (arg_file a))
      else if given (arg_usernames a) then
        Inr (map strip (split_comma (the (arg_usernames a))))
      else Inl (ValueError ''Provide either a file path or a list of usernames.''))"

definition get_usernames :: "filesystem \<Rightarrow> args \<Rightarrow> string list result" where
  "get_usernames fs a =
     try_bind (read_usernames fs a) (\<lambda>names.
     if length names > 100 then Inl (ValueError ''The number of usernames cannot exceed 100.'')
     else Inr names)"

text \<open>
  The main program of \<^verbatim>\<open>leetcode_fetcher.py\<close>. What it prints: a line of text, the
  table, or, from \<^verbatim>\<open>except Exception as e\<close>, the line \<^verbatim>\<open>Error:\<close> followed by the text of
  the exception, kept here as the exception itself.
\<close>

datatype printed = Print string | PrintTable pretty_table | PrintError exn

definition cli_main :: "filesystem \<Rightarrow> args \<Rightarrow> net \<Rightarrow> printed list \<times> net" where
  "cli_main fs a nw =
     (case get_usernames fs a of
        Inl e \<Rightarrow> ([PrintError e], nw)
      | Inr names \<Rightarrow>
          (let line = Print (''Fetching data for '' @ str_nat (length names) @ '' users...'') in
           case fetch_all_users nw names of
             (Inl e, nw') \<Rightarrow> ([line, PrintError e], nw')
           | (Inr user_data_list, nw') \<Rightarrow>
               (case display_data user_data_list of
                  Inl e \<Rightarrow> ([line, PrintError e], nw')
                | Inr table \<Rightarrow> ([line, PrintTable table], nw'))))"

section \<open>The Streamlit page (\<^verbatim>\<open>app.py\<close>)\<close>

text \<open>
  What the page shows, in order: the calls of \<^verbatim>\<open>st.title\<close>, \<^verbatim>\<open>st.error\<close>,
  \<^verbatim>\<open>st.write\<close>, \<^verbatim>\<open>st.warning\<close> and \<^verbatim>\<open>st.dataframe\<close>. A data frame is its column
  names, its index and its rows; a row keeps the dictionary it was made from, and a
  column the row has no key for is a missing value.
\<close>

record dataframe =
  columns :: "string list"
  index :: "int list"
  records :: "(string \<times> pyval) list list"

datatype shown =
    StTitle string
  | StError string
  | StWrite string
  | StWarning string
  | StDataframe dataframe

text \<open>
  An uploaded file is \<open>Inl msg\<close> when \<^verbatim>\<open>uploaded_file.getvalue().decode("utf-8")\<close>
  raises an exception with text \<open>msg\<close>, and \<open>Inr content\<close> when it returns the text.
  \<^verbatim>\<open>get_usernames_from_file\<close> returns the user names and shows an error on the page
  when it returns none for a failure.
\<close>

type_synonym upload = "string + string"

definition get_usernames_from_file :: "upload \<Rightarrow> shown list \<times> string list" where
  "get_usernames_from_file uploaded_file =
     (case uploaded_file of
        Inl msg \<Rightarrow> ([StError (''Error reading file: '' @ msg)], [])
      | Inr content \<Rightarrow>
          (let names = map strip (splitlines [] content) in
           if length names > 200 then
             ([StError ''The number of usernames cannot exceed 100.''], [])
           else ([], names)))"

text \<open>
  \<^verbatim>\<open>pd.DataFrame(data)\<close> on a list of dictionaries: one row per dictionary, the columns
  are the keys in the order they first occur, the index counts from 0. A list holding
  anything but dictionaries is not represented.
\<close>

fun dict_rows :: "pyval list \<Rightarrow> (string \<times> pyval) list list result" where
  "dict_rows [] = Inr []"
| "dict_rows (PDict kvs # xs) = try_bind (dict_rows xs) (\<lambda>rs. Inr (kvs # rs))"
| "dict_rows (_ # xs) = Inl NotModelled"

definition DataFrame :: "pyval list \<Rightarrow> dataframe result" where
  "DataFrame data =
     try_bind (dict_rows data) (\<lambda>rs.
     Inr \<lparr>columns = rev (remdups (rev (concat (map (map fst) rs)))),
          index = map int [0..<length rs],
          records = rs\<rparr>)"

text \<open>
  \<^verbatim>\<open>df.sort_values(by='ranking', ascending=True)\<close>. Without the column pandas raises
  \<^verbatim>\<open>KeyError\<close>. A row whose ranking is missing or \<^verbatim>\<open>None\<close> has no sort key and goes
  last, in its original order; the rows with an integer ranking come first, by ascending
  ranking. pandas does not fix the order of rows with equal ranking; here they keep
  their original order, and no theorem depends on it. A ranking column that holds any
  other kind of value is not represented.
\<close>

fun rank_key :: "(string \<times> pyval) list \<Rightarrow> int option result" where
  "rank_key row =
     (case map_of row ''ranking'' of
        None \<Rightarrow> Inr None
      | Some PNone \<Rightarrow> Inr None
      | Some (PInt n) \<Rightarrow> Inr (Some n)
      | Some _ \<Rightarrow> Inl NotModelled)"

fun rank_keys :: "(string \<times> pyval) list list \<Rightarrow> int option list result" where
  "rank_keys [] = Inr []"
| "rank_keys (row # rs) =
     try_bind (rank_key row) (\<lambda>k.
     try_bind (rank_keys rs) (\<lambda>ks. Inr (k # ks)))"

definition sort_values :: "dataframe \<Rightarrow> dataframe result" where
  "sort_values df =
     (if ''ranking'' \<notin> set (columns df) then Inl (KeyError ''ranking'')
      else
        try_bind (rank_keys (records df)) (\<lambda>ks.
        (let keyed = zip ks (zip (index df) (records df));
             ranked = sort_key (\<lambda>k. the (fst k)) (filter (\<lambda>k. fst k \<noteq> None) keyed);
             ordered = ranked @ filter (\<lambda>k. fst k = None) keyed
         in Inr (df\<lparr>index := map (\<lambda>k. fst (snd k)) ordered,
                    records := map (\<lambda>k. snd (snd k)) ordered\<rparr>))))"

text \<open>\<^verbatim>\<open>df.reset_index(drop=True)\<close> followed by \<^verbatim>\<open>df.index += 1\<close>.\<close>

definition reset_index :: "dataframe \<Rightarrow> dataframe" where
  "reset_index df = df\<lparr>index := map int [0..<length (records df)]\<rparr>"

definition index_plus_1 :: "dataframe \<Rightarrow> dataframe" where
  "index_plus_1 df = df\<lparr>index := map (\<lambda>i. i + 1) (index df)\<rparr>"

text \<open>\<^verbatim>\<open>display_data\<close> of \<^verbatim>\<open>app.py\<close>.\<close>

definition app_display_data :: "pyval list \<Rightarrow> shown list result" where
  "app_display_data data =
     (if data \<noteq> [] then
        try_bind (DataFrame data) (\<lambda>df.
        try_bind (sort_values df) (\<lambda>sorted_df.
        Inr [StDataframe (index_plus_1 (reset_index sorted_df))]))
      else Inr [StWarning ''No data to display.''])"

text \<open>
  \<^verbatim>\<open>main\<close> of \<^verbatim>\<open>app.py\<close>; \<open>uploaded_file\<close> is what \<^verbatim>\<open>st.file_uploader\<close> returned.
  Nothing catches an exception here: the result holds what the page showed before it and
  the exception.
\<close>

definition app_main :: "upload option \<Rightarrow> net \<Rightarrow> (shown list \<times> exn option) \<times> net" where
  "app_main uploaded_file nw =
     (let title = StTitle ''LeetCode User Fetcher'' in
      case uploaded_file of
        None \<Rightarrow> (([title], None), nw)
      | Some f \<Rightarrow>
          (let (errors, names) = get_usernames_from_file f in
           if names = [] then ((title # errors, None), nw)
           else
             (let progress =
                    StWrite (''Fetching data for '' @ str_nat (length names) @ '' users...'')
              in case app_fetch_all_users nw names of
                   (Inl e, nw') \<Rightarrow> ((title # errors @ [progress], Some e), nw')
                 | (Inr user_data_list, nw') \<Rightarrow>
                     (case app_display_data user_data_list of
                        Inl e \<Rightarrow> ((title # errors @ [progress], Some e), nw')
                      | Inr table \<Rightarrow> ((title # errors @ [progress] @ table, None), nw')))))"

section \<open>Notions used in the statements\<close>

text \<open>
  The integer count of an accepted-submission entry and the display name of a badge, for
  the entries that have one; a network that has sent nothing yet and answers every
  request with the same response.
\<close>

fun int_count :: "pyval \<Rightarrow> int option" where
  "int_count (PDict e) = (case map_of e ''count'' of Some (PInt c) \<Rightarrow> Some c | _ \<Rightarrow> None)"
| "int_count _ = None"






definition always :: "response \<Rightarrow> net" where
  "always r = \<lparr>remote = (\<lambda>k u. r), sent = []\<rparr>"

text \<open>
  A body of the expected shape: a matched user with ranking 50, the accepted-submission
  counts 10, 8, 2 and 20, and the given value under \<^verbatim>\<open>badges\<close>.
\<close>

definition example_submissions :: "pyval list" where
  "example_submissions =
     [PDict [(''difficulty'', PStr ''Easy''), (''count'', PInt 10)],
      PDict [(''difficulty'', PStr ''Medium''), (''count'', PInt 8)],
      PDict [(''difficulty'', PStr ''Hard''), (''count'', PInt 2)],
      PDict [(''difficulty'', PStr ''All''), (''count'', PInt 20)]]"

definition example_profile :: "(string \<times> pyval) list" where
  "example_profile =
     [(''realName'', PStr ''Alice''), (''userAvatar'', PStr ''a.png''), (''ranking'', PInt 50)]"

definition example_stats :: "(string \<times> pyval) list" where
  "example_stats = [(''acSubmissionNum'', PList example_submissions)]"

definition example_user :: "pyval \<Rightarrow> (string \<times> pyval) list" where
  "example_user badges =
     [(''username'', PStr ''alice''), (''profile'', PDict example_profile),
      (''submitStats'', PDict example_stats), (''badges'', badges)]"

definition profile_body :: "pyval \<Rightarrow> pyval" where
  "profile_body badges =
     PDict [(''data'', PDict [(''matchedUser'', PDict (example_user badges))])]"

section \<open>The error monad\<close>

lemma try_bind_Inr [simp]: "try_bind (Inr v) f = f v"
  by (simp add: try_bind_def)

lemma try_bind_Inl [simp]: "try_bind (Inl e) f = Inl e"
  by (simp add: try_bind_def)

lemma try_bind_eq_Inr: "try_bind m f = Inr x \<longleftrightarrow> (\<exists>v. m = Inr v \<and> f v = Inr x)"
  by (cases m) simp_all

section \<open>Properties of the profile fetcher\<close>

lemma int_count_subscript:
  assumes "int_count item = Some c"
  shows "subscript item ''count'' = Inr (PInt c)"
  using assms
  by (cases item) (auto split: option.splits pyval.splits)

lemma sum_counts_ints:
  assumes "map int_count items = map Some cs"
  shows "sum_counts acc items = Inr (acc + sum_list cs)"
  using assms
proof (induction items arbitrary: acc cs)
  case Nil
  then show ?case by simp
next
  case (Cons item items)
  then obtain c cs' where cs: "cs = c # cs'" and c: "int_count item = Some c"
    and rest: "map int_count items = map Some cs'"
    by (cases cs) auto
  from Cons.IH [OF rest] show ?case
    by (simp add: cs int_count_subscript [OF c] add.assoc)
qed




lemma fetch_success:
  assumes "status_code (remote nw (length (sent nw)) username) = 200"
    and "body (remote nw (length (sent nw)) username) = Inr (PDict d)"
    and "map_of d ''errors'' = None"
    and "map_of d ''data'' = Some (PDict dd)"
    and "map_of dd ''matchedUser'' = Some (PDict u)"
    and "u \<noteq> []"
    and "map_of u ''profile'' = Some (PDict p)"
    and "map_of p ''ranking'' = Some rk"
    and "map_of u ''submitStats'' = Some (PDict ss)"
    and "map_of ss ''acSubmissionNum'' = Some sub"
    and "py_iter sub = Inr items"
    and "sum_counts 0 items = Inr n"
    and "py_get (PDict u) ''badges'' (PList []) = Inr b"
    and "bf b = Inr bv"
  shows "fst (fetch_with bf nw username) = Inr (success_record username rk (PInt (n div 2)) bv)"
  using assms
  by (simp add: fetch_with_def requests_post_def normalize_def json_def map_of_eq_None_iff)



lemmas example_defs =
  always_def profile_body_def example_user_def example_stats_def example_profile_def
  example_submissions_def



text \<open>
  C2. A response with status 200 whose body is the empty JSON object is not turned into a
  record: the subscript \<^verbatim>\<open>data["data"]\<close> raises \<^verbatim>\<open>KeyError\<close>, which the handler for
  \<^verbatim>\<open>ValueError\<close> does not catch, so the exception leaves \<^verbatim>\<open>fetch_user_data\<close> in both
  files.
\<close>

theorem unexpected_body_escapes:
  "fst (fetch_user_data (always \<lparr>status_code = 200, body = Inr (PDict [])\<rparr>) ''ghost123'') =
     Inl (KeyError ''data'')
   \<and> fst (app_fetch_user_data (always \<lparr>status_code = 200, body = Inr (PDict [])\<rparr>) ''ghost123'') =
     Inl (KeyError ''data'')"
  by (simp add: fetch_user_data_def app_fetch_user_data_def fetch_with_def requests_post_def
      normalize_def json_def always_def)


lemma fetch_api_error:
  assumes "status_code (remote nw (length (sent nw)) username) \<noteq> 200"
  shows "fst (fetch_with bf nw username) =
    Inr (error_record username
      (PStr (''API error: '' @ str_int (status_code (remote nw (length (sent nw)) username)))))"
  using assms by (simp add: fetch_with_def requests_post_def)

lemma fetch_errors_payload:
  assumes "status_code (remote nw (length (sent nw)) username) = 200"
    and "body (remote nw (length (sent nw)) username) = Inr (PDict d)"
    and "map_of d ''errors'' = Some errs"
  shows "fst (fetch_with bf nw username) = Inr (error_record username errs)"
proof -
  have "''errors'' \<in> fst ` set d"
    using assms(3) by (metis map_of_eq_None_iff option.distinct(1))
  then show ?thesis
    using assms by (simp add: fetch_with_def requests_post_def normalize_def json_def)
qed

lemma fetch_user_not_found:
  assumes "status_code (remote nw (length (sent nw)) username) = 200"
    and "body (remote nw (length (sent nw)) username) = Inr (PDict d)"
    and "map_of d ''errors'' = None"
    and "map_of d ''data'' = Some (PDict dd)"
    and "map_of dd ''matchedUser'' = Some user"
    and "\<not> truthy user"
  shows "fst (fetch_with bf nw username) = Inr (error_record username (PStr ''User not found.''))"
  using assms
  by (simp add: fetch_with_def requests_post_def normalize_def json_def map_of_eq_None_iff)

text \<open>
  The classification of a response whose fields are present, in order. A status other
  than 200 gives the record \<^verbatim>\<open>API error: <status>\<close> whatever the body holds. With
  status 200 and a body that is a dictionary with an \<^verbatim>\<open>errors\<close> key, the record carries
  that payload whatever the matched user is. With status 200, a parsed body without
  \<^verbatim>\<open>errors\<close> and a matched-user field that is present with the value \<^verbatim>\<open>None\<close> or an
  empty value, the record's error detail is exactly \<^verbatim>\<open>User not found.\<close>
\<close>

lemma user_not_found_after_status_and_errors:
  fixes nw username
  defines "r \<equiv> remote nw (length (sent nw)) username"
  shows "(status_code r \<noteq> 200 \<longrightarrow>
            fst (fetch_user_data nw username) =
              Inr (PDict [(''username'', PStr username),
                          (''error'', PStr (''API error: '' @ str_int (status_code r)))])
          \<and> fst (app_fetch_user_data nw username) =
              Inr (PDict [(''username'', PStr username),
                          (''error'', PStr (''API error: '' @ str_int (status_code r)))]))
       \<and> (status_code r = 200 \<and> body r = Inr (PDict d) \<and> map_of d ''errors'' = Some errs \<longrightarrow>
            fst (fetch_user_data nw username) =
              Inr (PDict [(''username'', PStr username), (''error'', errs)])
          \<and> fst (app_fetch_user_data nw username) =
              Inr (PDict [(''username'', PStr username), (''error'', errs)]))
       \<and> (status_code r = 200 \<and> body r = Inr (PDict d) \<and> map_of d ''errors'' = None
            \<and> map_of d ''data'' = Some (PDict dd) \<and> map_of dd ''matchedUser'' = Some user
            \<and> \<not> truthy user \<longrightarrow>
            fst (fetch_user_data nw username) =
              Inr (PDict [(''username'', PStr username), (''error'', PStr ''User not found.'')])
          \<and> fst (app_fetch_user_data nw username) =
              Inr (PDict [(''username'', PStr username), (''error'', PStr ''User not found.'')]))"
  unfolding r_def fetch_user_data_def app_fetch_user_data_def
  using fetch_api_error [unfolded error_record_def]
    fetch_errors_payload [unfolded error_record_def]
    fetch_user_not_found [unfolded error_record_def]
  by blast

text \<open>
  One response for each case: status 404 with a null matched user, status 200 with an
  \<^verbatim>\<open>errors\<close> payload and a null matched user, status 200 with a null matched user, and
  status 200 with an empty matched user.
\<close>

lemma user_not_found_after_status_and_errors_examples:
  "fst (fetch_user_data (always \<lparr>status_code = 404, body = Inr (PDict [(''data'', PDict [(''matchedUser'', PNone)])])\<rparr>) ''ghost123'')
     = Inr (error_record ''ghost123'' (PStr ''API error: 404''))
   \<and> fst (fetch_user_data (always \<lparr>status_code = 200,
        body = Inr (PDict [(''errors'', PList [PStr ''boom'']), (''data'', PDict [(''matchedUser'', PNone)])])\<rparr>) ''ghost123'')
     = Inr (error_record ''ghost123'' (PList [PStr ''boom'']))
   \<and> fst (fetch_user_data (always \<lparr>status_code = 200, body = Inr (PDict [(''data'', PDict [(''matchedUser'', PNone)])])\<rparr>) ''ghost123'')
     = Inr (error_record ''ghost123'' (PStr ''User not found.''))
   \<and> fst (app_fetch_user_data (always \<lparr>status_code = 200, body = Inr (PDict [(''data'', PDict [(''matchedUser'', PDict [])])])\<rparr>) ''ghost123'')
     = Inr (error_record ''ghost123'' (PStr ''User not found.''))"
proof -
  have code: "str_int 404 = ''404''"
    by code_simp
  show ?thesis
  using
    user_not_found_after_status_and_errors
      [of "always \<lparr>status_code = 404, body = Inr (PDict [(''data'', PDict [(''matchedUser'', PNone)])])\<rparr>" "''ghost123''"]
    user_not_found_after_status_and_errors
      [of "always \<lparr>status_code = 200,
        body = Inr (PDict [(''errors'', PList [PStr ''boom'']), (''data'', PDict [(''matchedUser'', PNone)])])\<rparr>" "''ghost123''"
        "[(''errors'', PList [PStr ''boom'']), (''data'', PDict [(''matchedUser'', PNone)])]" "PList [PStr ''boom'']"]
    user_not_found_after_status_and_errors
      [of "always \<lparr>status_code = 200, body = Inr (PDict [(''data'', PDict [(''matchedUser'', PNone)])])\<rparr>" "''ghost123''"
        "[(''data'', PDict [(''matchedUser'', PNone)])]" _ "[(''matchedUser'', PNone)]" PNone]
    user_not_found_after_status_and_errors
      [of "always \<lparr>status_code = 200, body = Inr (PDict [(''data'', PDict [(''matchedUser'', PDict [])])])\<rparr>" "''ghost123''"
        "[(''data'', PDict [(''matchedUser'', PDict [])])]" _ "[(''matchedUser'', PDict [])]" "PDict []"]
  by (simp add: always_def code error_record_def)
qed

text \<open>
  C6. With status 200, a parsed body without \<^verbatim>\<open>errors\<close> and no \<^verbatim>\<open>matchedUser\<close> key
  under \<^verbatim>\<open>data\<close> (the matched-user field is absent), no \<^verbatim>\<open>User not found.\<close> record is
  returned: the subscript \<^verbatim>\<open>data["data"]["matchedUser"]\<close> raises \<^verbatim>\<open>KeyError\<close>, which
  leaves \<^verbatim>\<open>fetch_user_data\<close> in both files.
\<close>

theorem absent_matched_user_escapes:
  "fst (fetch_user_data (always \<lparr>status_code = 200, body = Inr (PDict [(''data'', PDict [])])\<rparr>)
          ''ghost123'') = Inl (KeyError ''matchedUser'')
   \<and> fst (app_fetch_user_data (always \<lparr>status_code = 200, body = Inr (PDict [(''data'', PDict [])])\<rparr>)
          ''ghost123'') = Inl (KeyError ''matchedUser'')"
  by (simp add: fetch_user_data_def app_fetch_user_data_def fetch_with_def requests_post_def
      normalize_def json_def always_def)

lemma except_ValueError_shape:
  assumes "except_ValueError u m = Inr x"
  shows "m = Inr x \<or> (\<exists>e. x = error_record u e)"
  using assms by (cases "(u, m)" rule: except_ValueError.cases) auto

lemma normalize_shape:
  assumes "normalize bf u r = Inr x"
  shows "(\<exists>e. x = error_record u e) \<or> (\<exists>rk n b. x = success_record u rk (PInt n) b)"
  using assms unfolding normalize_def
  by (auto simp: try_bind_eq_Inr split: if_splits)

lemma fetch_with_sent: "snd (fetch_with bf nw u) = nw\<lparr>sent := sent nw @ [u]\<rparr>"
  by (simp add: fetch_with_def requests_post_def)

lemma fetch_with_shape:
  assumes "fst (fetch_with bf nw u) = Inr x"
  shows "(\<exists>e. x = error_record u e) \<or> (\<exists>rk n b. x = success_record u rk (PInt n) b)"
  using assms
  by (auto simp: fetch_with_def requests_post_def split: if_splits
      dest!: except_ValueError_shape normalize_shape)

text \<open>
  C7. Every record that \<^verbatim>\<open>fetch_user_data\<close> returns, in either file, is a dictionary that
  names the user and whose keys are exactly those of a failure (\<^verbatim>\<open>username\<close>,
  \<^verbatim>\<open>error\<close>) or exactly those of a success (\<^verbatim>\<open>username\<close>, \<^verbatim>\<open>ranking\<close>,
  \<^verbatim>\<open>problems_solved\<close>, \<^verbatim>\<open>badges\<close>): never keys of both.
\<close>

theorem record_has_exactly_one_variant:
  assumes "fst (fetch_user_data nw username) = Inr r \<or> fst (app_fetch_user_data nw username) = Inr r"
  shows "\<exists>kvs. r = PDict kvs \<and> map_of kvs ''username'' = Some (PStr username)
           \<and> (map fst kvs = [''username'', ''error'']
              \<or> map fst kvs = [''username'', ''ranking'', ''problems_solved'', ''badges''])"
proof -
  from assms have "(\<exists>e. r = error_record username e)
      \<or> (\<exists>rk n b. r = success_record username rk (PInt n) b)"
    unfolding fetch_user_data_def app_fetch_user_data_def
    using fetch_with_shape by blast
  then show ?thesis
    by (auto simp: error_record_def success_record_def)
qed

theorem record_has_exactly_one_variant_witness:
  "fst (fetch_user_data (always \<lparr>status_code = 200,
        body = Inr (PDict [(''data'', PDict [(''matchedUser'', PNone)])])\<rparr>) ''ghost123'')
     = Inr (error_record ''ghost123'' (PStr ''User not found.''))
   \<and> (\<exists>kvs. error_record ''ghost123'' (PStr ''User not found.'') = PDict kvs
      \<and> map_of kvs ''username'' = Some (PStr ''ghost123'')
      \<and> (map fst kvs = [''username'', ''error'']
         \<or> map fst kvs = [''username'', ''ranking'', ''problems_solved'', ''badges'']))"
proof -
  have "fst (fetch_user_data (always \<lparr>status_code = 200,
        body = Inr (PDict [(''data'', PDict [(''matchedUser'', PNone)])])\<rparr>) ''ghost123'')
      = Inr (error_record ''ghost123'' (PStr ''User not found.''))"
    by (simp add: fetch_user_data_def fetch_with_def requests_post_def normalize_def json_def
        always_def)
  then show ?thesis
    using record_has_exactly_one_variant by blast
qed

section \<open>Empty badge lists\<close>

lemma display_data_single:
  assumes "table_row user = Inr row"
  shows "display_data [user] =
    Inr \<lparr>field_names = [''Username'', ''Ranking'', ''Problems Solved'', ''Badges''], rows = [row]\<rparr>"
  using assms by (simp add: display_data_def)

lemma table_row_no_badges:
  "table_row (success_record username ranking solved (PList [])) =
     Inr [PStr username, if truthy ranking then ranking else PStr ''N/A'', solved, PStr ''None'']"
  by (simp add: table_row_def success_record_def)

text \<open>
  C8, as stated, fails for \<^verbatim>\<open>app.py\<close>: with an empty badge list its
  \<^verbatim>\<open>fetch_user_data\<close> stores the string \<^verbatim>\<open>None\<close> under \<^verbatim>\<open>badges\<close>, not an empty
  sequence.
\<close>

theorem app_badges_field_is_placeholder:
  "fst (app_fetch_user_data (always \<lparr>status_code = 200, body = Inr (profile_body (PList []))\<rparr>) ''alice'')
     = Inr (success_record ''alice'' (PInt 50) (PInt 20) (PStr ''None''))
   \<and> success_record ''alice'' (PInt 50) (PInt 20) (PStr ''None'')
     \<noteq> success_record ''alice'' (PInt 50) (PInt 20) (PList [])"
  by (simp add: app_fetch_user_data_def fetch_with_def requests_post_def normalize_def json_def
      app_badges_field_def success_record_def example_defs)

text \<open>
  C8, amended. For a response of the expected shape whose badge list is empty or whose
  \<^verbatim>\<open>badges\<close> key is missing, \<^verbatim>\<open>fetch_user_data\<close> of \<^verbatim>\<open>leetcode_fetcher.py\<close> returns a
  success record whose badges field is the empty list, and \<^verbatim>\<open>display_data\<close> shows
  \<^verbatim>\<open>None\<close> in the badges cell of its row; \<^verbatim>\<open>fetch_user_data\<close> of \<^verbatim>\<open>app.py\<close> returns a
  success record whose badges field is already the string \<^verbatim>\<open>None\<close>.
\<close>

theorem empty_badges_give_success:
  assumes "status_code (remote nw (length (sent nw)) username) = 200"
    and "body (remote nw (length (sent nw)) username) = Inr (PDict d)"
    and "map_of d ''errors'' = None"
    and "map_of d ''data'' = Some (PDict dd)"
    and "map_of dd ''matchedUser'' = Some (PDict user)"
    and "user \<noteq> []"
    and "map_of user ''profile'' = Some (PDict profile)"
    and "map_of profile ''ranking'' = Some ranking"
    and "map_of user ''submitStats'' = Some (PDict stats)"
    and "map_of stats ''acSubmissionNum'' = Some (PList submissions)"
    and "map int_count submissions = map Some counts"
    and "map_of user ''badges'' = None \<or> map_of user ''badges'' = Some (PList [])"
  shows "fst (fetch_user_data nw username) =
           Inr (success_record username ranking (PInt (sum_list counts div 2)) (PList []))
       \<and> display_data [success_record username ranking (PInt (sum_list counts div 2)) (PList [])] =
           Inr \<lparr>field_names = [''Username'', ''Ranking'', ''Problems Solved'', ''Badges''],
                rows = [[PStr username, if truthy ranking then ranking else PStr ''N/A'',
                         PInt (sum_list counts div 2), PStr ''None'']]\<rparr>
       \<and> fst (app_fetch_user_data nw username) =
           Inr (success_record username ranking (PInt (sum_list counts div 2)) (PStr ''None''))"
proof -
  have iter: "py_iter (PList submissions) = Inr submissions"
    by simp
  have summed: "sum_counts 0 submissions = Inr (sum_list counts)"
    using sum_counts_ints [OF assms(11), of 0] by simp
  have badges: "py_get (PDict user) ''badges'' (PList []) = Inr (PList [])"
    using assms(12) by auto
  note ok = fetch_success [OF assms(1-10) iter summed badges]
  have cli: "cli_badges_field (PList []) = Inr (PList [])"
    by (simp add: cli_badges_field_def)
  have app: "app_badges_field (PList []) = Inr (PStr ''None'')"
    by (simp add: app_badges_field_def)
  show ?thesis
    unfolding fetch_user_data_def app_fetch_user_data_def
    using ok [where bf = cli_badges_field, OF cli] ok [where bf = app_badges_field, OF app]
      display_data_single [OF table_row_no_badges]
    by simp
qed

theorem empty_badges_give_success_witness:
  "fst (fetch_user_data (always \<lparr>status_code = 200, body = Inr (profile_body (PList []))\<rparr>) ''alice'') =
     Inr (success_record ''alice'' (PInt 50) (PInt 20) (PList []))
   \<and> display_data [success_record ''alice'' (PInt 50) (PInt 20) (PList [])] =
     Inr \<lparr>field_names = [''Username'', ''Ranking'', ''Problems Solved'', ''Badges''],
          rows = [[PStr ''alice'', PInt 50, PInt 20, PStr ''None'']]\<rparr>
   \<and> fst (app_fetch_user_data (always \<lparr>status_code = 200, body = Inr (profile_body (PList []))\<rparr>) ''alice'') =
     Inr (success_record ''alice'' (PInt 50) (PInt 20) (PStr ''None''))"
  using empty_badges_give_success
    [of "always \<lparr>status_code = 200, body = Inr (profile_body (PList []))\<rparr>" "''alice''"
      "[(''data'', PDict [(''matchedUser'', PDict (example_user (PList [])))])]"
      "[(''matchedUser'', PDict (example_user (PList [])))]"
      "example_user (PList [])" example_profile "PInt 50" example_stats example_submissions
      "[10, 8, 2, 20]"]
  by (simp add: example_defs)

section \<open>Properties of the batch orchestrator\<close>

text \<open>
  When every fetch returns a record, the loop returns one record per user name, in the
  order of the input, and sends one request per user name, repeated names included.
\<close>

lemma fetch_loop_records:
  assumes log: "\<And>nw u. snd (fetch nw u) = nw\<lparr>sent := sent nw @ [u]\<rparr>"
    and ok: "\<forall>i<length us. \<exists>r. fst (fetch (nw\<lparr>sent := sent nw @ take i us\<rparr>) (us ! i)) = Inr r"
  shows "\<exists>rs. fetch_loop fetch nw us acc = (Inr (acc @ rs), nw\<lparr>sent := sent nw @ us\<rparr>)
           \<and> length rs = length us
           \<and> (\<forall>i<length us. fst (fetch (nw\<lparr>sent := sent nw @ take i us\<rparr>) (us ! i)) = Inr (rs ! i))"
  using ok
proof (induction us arbitrary: nw acc)
  case Nil
  then show ?case by simp
next
  case (Cons u us)
  let ?nw' = "nw\<lparr>sent := sent nw @ [u]\<rparr>"
  from Cons.prems [rule_format, of 0] obtain r where r: "fst (fetch nw u) = Inr r"
    by auto
  then have step: "fetch nw u = (Inr r, ?nw')"
    using log [of nw u] by (metis prod.collapse)
  have "\<forall>i<length us. \<exists>r. fst (fetch (?nw'\<lparr>sent := sent ?nw' @ take i us\<rparr>) (us ! i)) = Inr r"
  proof (intro allI impI)
    fix i assume "i < length us"
    then show "\<exists>r. fst (fetch (?nw'\<lparr>sent := sent ?nw' @ take i us\<rparr>) (us ! i)) = Inr r"
      using Cons.prems [rule_format, of "Suc i"] by simp
  qed
  from Cons.IH [OF this, of "acc @ [r]"] obtain rs where
    loop: "fetch_loop fetch ?nw' us (acc @ [r]) = (Inr ((acc @ [r]) @ rs), ?nw'\<lparr>sent := sent ?nw' @ us\<rparr>)"
    and len: "length rs = length us"
    and each: "\<forall>i<length us. fst (fetch (?nw'\<lparr>sent := sent ?nw' @ take i us\<rparr>) (us ! i)) = Inr (rs ! i)"
    by blast
  have "\<forall>i<length (u # us). fst (fetch (nw\<lparr>sent := sent nw @ take i (u # us)\<rparr>) ((u # us) ! i)) = Inr ((r # rs) ! i)"
  proof (intro allI impI)
    fix i assume i: "i < length (u # us)"
    show "fst (fetch (nw\<lparr>sent := sent nw @ take i (u # us)\<rparr>) ((u # us) ! i)) = Inr ((r # rs) ! i)"
    proof (cases i)
      case 0
      then show ?thesis using r by simp
    next
      case (Suc j)
      then show ?thesis using each [rule_format, of j] i by simp
    qed
  qed
  then show ?case
    using loop len step by (intro exI [of _ "r # rs"]) simp
qed

lemma fetch_all_users_records:
  assumes "\<forall>i<length us. \<exists>r. fst (fetch_user_data (nw\<lparr>sent := sent nw @ take i us\<rparr>) (us ! i)) = Inr r"
  shows "\<exists>rs. fetch_all_users nw us = (Inr rs, nw\<lparr>sent := sent nw @ us\<rparr>)
           \<and> length rs = length us
           \<and> (\<forall>i<length us. fst (fetch_user_data (nw\<lparr>sent := sent nw @ take i us\<rparr>) (us ! i)) = Inr (rs ! i))"
  unfolding fetch_all_users_def
  using fetch_loop_records [of fetch_user_data us nw "[]", OF _ assms]
  by (simp add: fetch_user_data_def fetch_with_sent)

lemma app_fetch_all_users_records:
  assumes "\<forall>i<length us. \<exists>r. fst (app_fetch_user_data (nw\<lparr>sent := sent nw @ take i us\<rparr>) (us ! i)) = Inr r"
  shows "\<exists>rs. app_fetch_all_users nw us = (Inr rs, nw\<lparr>sent := sent nw @ us\<rparr>)
           \<and> length rs = length us
           \<and> (\<forall>i<length us. fst (app_fetch_user_data (nw\<lparr>sent := sent nw @ take i us\<rparr>) (us ! i)) = Inr (rs ! i))"
  unfolding app_fetch_all_users_def
  using fetch_loop_records [of app_fetch_user_data us nw "[]", OF _ assms]
  by (simp add: app_fetch_user_data_def fetch_with_sent)

text \<open>
  C3. With two user names and a remote that answers status 200 and an empty JSON object,
  \<^verbatim>\<open>fetch_all_users\<close> returns no sequence at all: the \<^verbatim>\<open>KeyError\<close> of the first fetch
  leaves the loop, in both files.
\<close>

theorem fetch_all_users_raises:
  "fst (fetch_all_users (always \<lparr>status_code = 200, body = Inr (PDict [])\<rparr>) [''ghost123'', ''alice''])
     = Inl (KeyError ''data'')
   \<and> fst (app_fetch_all_users (always \<lparr>status_code = 200, body = Inr (PDict [])\<rparr>) [''ghost123'', ''alice''])
     = Inl (KeyError ''data'')"
  by (simp add: fetch_all_users_def app_fetch_all_users_def fetch_user_data_def
      app_fetch_user_data_def fetch_with_def requests_post_def normalize_def json_def always_def)

section \<open>Properties of the identifier source\<close>

text \<open>
  C5. Command line: when the source yields more than 100 tokens, \<^verbatim>\<open>get_usernames\<close>
  raises \<^verbatim>\<open>ValueError\<close> and the main program prints the error and leaves the network
  as it was, no request sent. Upload: when the file has more than 200 lines,
  \<^verbatim>\<open>get_usernames_from_file\<close> shows an error and returns no names, and the page sends
  no request.
\<close>

theorem oversized_input_fetches_nothing:
  "(read_usernames fs a = Inr names \<and> length names > 100 \<longrightarrow>
      get_usernames fs a = Inl (ValueError ''The number of usernames cannot exceed 100.'')
    \<and> cli_main fs a nw =
        ([PrintError (ValueError ''The number of usernames cannot exceed 100.'')], nw))
 \<and> (length (splitlines [] content) > 200 \<longrightarrow>
      get_usernames_from_file (Inr content) =
        ([StError ''The number of usernames cannot exceed 100.''], [])
    \<and> app_main (Some (Inr content)) nw =
        (([StTitle ''LeetCode User Fetcher'',
           StError ''The number of usernames cannot exceed 100.''], None), nw))"
  by (simp add: get_usernames_def cli_main_def get_usernames_from_file_def app_main_def)

text \<open>101 comma-separated tokens on the command line, 201 lines in the upload.\<close>

theorem oversized_input_fetches_nothing_witness:
  "read_usernames (\<lambda>path. Inl FileNotFoundError)
      \<lparr>arg_file = None, arg_usernames = Some (replicate 100 CHR '','')\<rparr> = Inr (replicate 101 [])
   \<and> cli_main (\<lambda>path. Inl FileNotFoundError)
      \<lparr>arg_file = None, arg_usernames = Some (replicate 100 CHR '','')\<rparr>
      (always \<lparr>status_code = 200, body = Inr (profile_body (PList []))\<rparr>) =
        ([PrintError (ValueError ''The number of usernames cannot exceed 100.'')],
         always \<lparr>status_code = 200, body = Inr (profile_body (PList []))\<rparr>)
   \<and> length (splitlines [] (replicate 201 CHR 0x0A)) = 201
   \<and> app_main (Some (Inr (replicate 201 CHR 0x0A)))
      (always \<lparr>status_code = 200, body = Inr (profile_body (PList []))\<rparr>) =
        (([StTitle ''LeetCode User Fetcher'',
           StError ''The number of usernames cannot exceed 100.''], None),
         always \<lparr>status_code = 200, body = Inr (profile_body (PList []))\<rparr>)"
proof -
  have cli: "read_usernames (\<lambda>path. Inl FileNotFoundError)
      \<lparr>arg_file = None, arg_usernames = Some (replicate 100 CHR '','')\<rparr> = Inr (replicate 101 [])"
    by code_simp
  have app: "length (splitlines [] (replicate 201 CHR 0x0A)) = 201"
    by code_simp
  show ?thesis
    using cli app
      oversized_input_fetches_nothing
        [of "\<lambda>path. Inl FileNotFoundError"
          "\<lparr>arg_file = None, arg_usernames = Some (replicate 100 CHR '','')\<rparr>"
          "replicate 101 []" "always \<lparr>status_code = 200, body = Inr (profile_body (PList []))\<rparr>"
          "replicate 201 CHR 0x0A"]
    by simp
qed

text \<open>
  C9. When a file is given, \<^verbatim>\<open>get_usernames\<close> returns what it returns for the file
  alone: the value of \<^verbatim>\<open>--usernames\<close> plays no part, so the two inputs are never
  combined. When neither is given, \<^verbatim>\<open>get_usernames\<close> raises \<^verbatim>\<open>ValueError\<close> and the
  main program prints the error without sending a request.
\<close>

theorem file_excludes_usernames_and_neither_fails:
  "(given (Some path) \<longrightarrow>
      get_usernames fs \<lparr>arg_file = Some path, arg_usernames = u\<rparr> =
      get_usernames fs \<lparr>arg_file = Some path, arg_usernames = None\<rparr>)
 \<and> (\<not> given f \<and> \<not> given u \<longrightarrow>
      get_usernames fs \<lparr>arg_file = f, arg_usernames = u\<rparr> =
        Inl (ValueError ''Provide either a file path or a list of usernames.'')
    \<and> cli_main fs \<lparr>arg_file = f, arg_usernames = u\<rparr> nw =
        ([PrintError (ValueError ''Provide either a file path or a list of usernames.'')], nw))"
  by (simp add: get_usernames_def read_usernames_def cli_main_def)

theorem file_excludes_usernames_and_neither_fails_witness:
  "get_usernames (\<lambda>path. Inr ''alice'') \<lparr>arg_file = Some ''names.txt'', arg_usernames = Some ''bob,carol''\<rparr>
     = get_usernames (\<lambda>path. Inr ''alice'') \<lparr>arg_file = Some ''names.txt'', arg_usernames = None\<rparr>
   \<and> get_usernames (\<lambda>path. Inr ''alice'') \<lparr>arg_file = Some ''names.txt'', arg_usernames = Some ''bob,carol''\<rparr>
     = Inr [''alice'']
   \<and> cli_main (\<lambda>path. Inr ''alice'') \<lparr>arg_file = None, arg_usernames = None\<rparr>
       (always \<lparr>status_code = 200, body = Inr (profile_body (PList []))\<rparr>) =
       ([PrintError (ValueError ''Provide either a file path or a list of usernames.'')],
        always \<lparr>status_code = 200, body = Inr (profile_body (PList []))\<rparr>)"
proof -
  have names: "get_usernames (\<lambda>path. Inr ''alice'')
      \<lparr>arg_file = Some ''names.txt'', arg_usernames = None\<rparr> = Inr [''alice'']"
    by code_simp
  show ?thesis
    using names
      file_excludes_usernames_and_neither_fails
        [of "''names.txt''" "\<lambda>path. Inr ''alice''" "Some ''bob,carol''"]
      file_excludes_usernames_and_neither_fails
        [of _ "\<lambda>path. Inr ''alice''" None None
          "always \<lparr>status_code = 200, body = Inr (profile_body (PList []))\<rparr>"]
    by simp
qed

section \<open>Properties of the presenters\<close>

text \<open>
  C10. In the plain-text table a success record with ranking 0 gives the same output as
  the record with ranking \<^verbatim>\<open>None\<close>, and the ranking cell of its row is \<^verbatim>\<open>N/A\<close>.
\<close>

theorem rank_zero_shown_as_absent:
  "display_data [success_record username (PInt 0) solved badges] =
     display_data [success_record username PNone solved badges]
   \<and> (display_data [success_record username (PInt 0) solved badges] = Inr table \<longrightarrow>
        (\<exists>shown. rows table = [[PStr username, PStr ''N/A'', solved, shown]]))"
  by (auto simp: display_data_def table_row_def success_record_def try_bind_eq_Inr
      split: if_splits)

theorem rank_zero_shown_as_absent_witness:
  "display_data [success_record ''alice'' (PInt 0) (PInt 20) (PList [PStr ''Knight''])] =
     Inr \<lparr>field_names = [''Username'', ''Ranking'', ''Problems Solved'', ''Badges''],
          rows = [[PStr ''alice'', PStr ''N/A'', PInt 20, PStr ''Knight'']]\<rparr>
   \<and> display_data [success_record ''alice'' PNone (PInt 20) (PList [PStr ''Knight''])] =
     Inr \<lparr>field_names = [''Username'', ''Ranking'', ''Problems Solved'', ''Badges''],
          rows = [[PStr ''alice'', PStr ''N/A'', PInt 20, PStr ''Knight'']]\<rparr>"
proof -
  have shown: "display_data [success_record ''alice'' (PInt 0) (PInt 20) (PList [PStr ''Knight''])] =
     Inr \<lparr>field_names = [''Username'', ''Ranking'', ''Problems Solved'', ''Badges''],
          rows = [[PStr ''alice'', PStr ''N/A'', PInt 20, PStr ''Knight'']]\<rparr>"
    by (simp add: display_data_def table_row_def success_record_def py_join_def)
  show ?thesis
    using shown
      rank_zero_shown_as_absent [of "''alice''" "PInt 20" "PList [PStr ''Knight'']"
        "\<lparr>field_names = [''Username'', ''Ranking'', ''Problems Solved'', ''Badges''],
          rows = [[PStr ''alice'', PStr ''N/A'', PInt 20, PStr ''Knight'']]\<rparr>"]
    by simp
qed












end
